theory Spec2Isabelle
  imports Main "HOL-Library.Word"
begin

section \<open>Data model of \<open>run_astrobot.py\<close>\<close>

text \<open>
  A message of the conversation history is the dictionary
  \<^verbatim>\<open>{'role': ..., 'content': ...}\<close>; both entries are strings. The role is kept as
  the string the code compares it with (\<^verbatim>\<open>'HumanMessage'\<close>, \<^verbatim>\<open>'AIMessage'\<close>),
  since a history read back from a file can hold any role string.
\<close>

record message =
  role :: string
  content :: string

type_synonym history = "message list"

text \<open>A \<^verbatim>\<open>Document(page_content=...)\<close>; the vector store holds a sequence of them.\<close>

record document =
  page_content :: string

type_synonym byte = "8 word"

text \<open>The files of the disk that the bot reads and writes: a map from paths to contents.\<close>

type_synonym files = "string \<rightharpoonup> byte list"

text \<open>
  The exceptions that can leave the modelled functions, named after the call that raises:
  the retrieval chain, \<^verbatim>\<open>pickle.load\<close>, \<^verbatim>\<open>vectorstore.add_documents\<close>, the write
  of the history file, a document loader's \<^verbatim>\<open>load\<close>, and Python's own
  \<^verbatim>\<open>TypeError\<close> and \<^verbatim>\<open>ValueError\<close> for a value that cannot be iterated or unpacked.
\<close>

datatype error =
    ChainError | UnpicklingError | IndexAddError | WriteError | LoaderError
  | TypeError | ValueError

text \<open>
  The state of a running \<^verbatim>\<open>ConversationalRAGBot\<close> together with the disk it works on:
  \<open>disk\<close> holds the files, \<open>vectorstore\<close> the documents of the Chroma collection
  (which lives in the persist directory and so outlives the process).
\<close>

record bot =
  disk :: files
  pickle_path :: string
  conversation_history :: history
  vectorstore :: "document list"

section \<open>Indexing the loaded history: \<open>_add_history_to_vectorstore\<close>\<close>

text \<open>The f-string \<^verbatim>\<open>f"Human: {human_content}\nAssistant: {ai_content}"\<close>.\<close>

definition combined_text :: "string \<Rightarrow> string \<Rightarrow> string" where
  "combined_text human_content ai_content =
     ''Human: '' @ human_content @ [CHR 0x0A] @ ''Assistant: '' @ ai_content"

text \<open>
  The \<^verbatim>\<open>while i < len(self.conversation_history)\<close> loop, with the loop variables
  \<open>i\<close> and \<open>documents\<close> as arguments. Every index read is guarded by the loop
  condition or by \<^verbatim>\<open>i + 1 < len(...)\<close>, as in the source.
\<close>

function history_loop :: "history \<Rightarrow> nat \<Rightarrow> document list \<Rightarrow> document list" where
  "history_loop h i documents =
     (if i < length h then
        (let msg = h ! i in
         if role msg = ''HumanMessage'' then
           (let human_content = content msg;
                (ai_content, i') =
                  (if i + 1 < length h then
                     (let next_msg = h ! (i + 1) in
                      if role next_msg = ''AIMessage''
                      then (content next_msg, i + 1)
                      else ('''', i))
                   else ('''', i));
                combined = combined_text human_content ai_content
            in history_loop h (i' + 1) (documents @ [\<lparr>page_content = combined\<rparr>]))
         else history_loop h (i + 1) documents)
      else documents)"
  by pat_completeness auto
termination
  by (relation "measure (\<lambda>(h, i, documents). length h - i)") (auto simp: Let_def split: if_splits)

text \<open>
  \<^verbatim>\<open>_add_history_to_vectorstore\<close>: \<^verbatim>\<open>add_documents\<close> is called only when the loop
  produced a document; it appends to the collection.
\<close>

definition add_history_to_vectorstore :: "history \<Rightarrow> document list \<Rightarrow> document list" where
  "add_history_to_vectorstore h vs =
     (let documents = history_loop h 0 []
      in if documents \<noteq> [] then vs @ documents else vs)"

section \<open>Reference description of the indexed documents\<close>

text \<open>
  The Assistant part that belongs to position \<open>i\<close> of a history: the content of the
  message at \<open>i + 1\<close> when there is one and it is an \<^verbatim>\<open>AIMessage\<close>, else empty.
\<close>

definition reply_at :: "history \<Rightarrow> nat \<Rightarrow> string" where
  "reply_at h i =
     (if i + 1 < length h \<and> role (h ! (i + 1)) = ''AIMessage''
      then content (h ! (i + 1)) else '''')"

text \<open>One combined document for the position \<open>i\<close> of a history.\<close>

definition exchange_document :: "history \<Rightarrow> nat \<Rightarrow> document" where
  "exchange_document h i = \<lparr>page_content = combined_text (content (h ! i)) (reply_at h i)\<rparr>"

text \<open>The positions from \<open>i\<close> on that hold a \<^verbatim>\<open>HumanMessage\<close>, in order.\<close>

definition human_positions :: "history \<Rightarrow> nat \<Rightarrow> nat list" where
  "human_positions h i = filter (\<lambda>j. role (h ! j) = ''HumanMessage'') [i..<length h]"

section \<open>Loading and saving the history: \<open>_load_pickle\<close>, \<open>_save_pickle\<close>\<close>

text \<open>
  \<^verbatim>\<open>pickle.dump\<close> and \<^verbatim>\<open>pickle.load\<close> belong to the Python library, not to the
  program. They enter the model as parameters: \<open>dumps\<close> gives the bytes written for a
  history, and \<open>loads\<close> reads a byte sequence back, \<open>None\<close> standing for the
  exception that \<^verbatim>\<open>pickle.load\<close> raises on bytes it cannot read.

  \<^verbatim>\<open>_load_pickle\<close>: the file is read when \<^verbatim>\<open>os.path.exists\<close> holds, and the
  exception of \<^verbatim>\<open>pickle.load\<close> is not caught; without a file the result is \<^verbatim>\<open>[]\<close>.
  Here \<open>loads\<close> yields a history, which is what \<^verbatim>\<open>pickle.load\<close> returns for the
  files the bot itself has written, as the return annotation
  \<^verbatim>\<open>List[Dict[str, str]]\<close> says. The function on files of any content is
  \<open>load_pickle_object\<close> below.
\<close>

definition load_pickle :: "(byte list \<Rightarrow> history option) \<Rightarrow> files \<Rightarrow> string \<Rightarrow> error + history" where
  "load_pickle loads fs path =
     (case fs path of
        Some bytes \<Rightarrow> (case loads bytes of Some h \<Rightarrow> Inr h | None \<Rightarrow> Inl UnpicklingError)
      | None \<Rightarrow> Inr [])"

text \<open>
  What can go wrong while \<^verbatim>\<open>_save_pickle\<close> runs: \<^verbatim>\<open>open(path, 'wb')\<close> itself
  fails (nothing is touched), or the write stops after \<open>k\<close> bytes have reached the file.
\<close>

datatype write_fault = OpenFails | WriteFailsAfter nat

text \<open>
  \<^verbatim>\<open>_save_pickle\<close>: \<^verbatim>\<open>open(self.pickle_path, 'wb')\<close> opens the target file itself and
  empties it, and \<^verbatim>\<open>pickle.dump\<close> writes the bytes into it. The argument \<open>fault\<close>
  says whether and where this run fails; the exception is not caught. The result is the
  exception or normal return, together with the state left behind.
\<close>

definition save_pickle ::
    "(history \<Rightarrow> byte list) \<Rightarrow> write_fault option \<Rightarrow> bot \<Rightarrow> (error + unit) \<times> bot" where
  "save_pickle dumps fault s =
     (let data = dumps (conversation_history s) in
      case fault of
        None \<Rightarrow> (Inr (), s\<lparr>disk := (disk s)(pickle_path s \<mapsto> data)\<rparr>)
      | Some OpenFails \<Rightarrow> (Inl WriteError, s)
      | Some (WriteFailsAfter k) \<Rightarrow>
          (Inl WriteError, s\<lparr>disk := (disk s)(pickle_path s \<mapsto> take k data)\<rparr>))"

section \<open>Start-up: \<open>__init__\<close> and \<open>_initialize_vectorstore\<close>\<close>

text \<open>
  \<^verbatim>\<open>_initialize_vectorstore\<close>: both branches of the test on the persist directory
  build the same \<^verbatim>\<open>Chroma(persist_directory=..., embedding_function=...)\<close>. The
  documents this constructor finds in the persist directory are the argument
  \<open>stored\<close> (empty for a new directory); \<open>populated\<close> is the outcome of
  \<^verbatim>\<open>os.path.exists(dir) and os.listdir(dir)\<close>. A non-empty history is then added.
\<close>

definition initialize_vectorstore :: "bool \<Rightarrow> document list \<Rightarrow> history \<Rightarrow> document list" where
  "initialize_vectorstore populated stored h =
     (let vs = (if populated then stored else stored)
      in if h \<noteq> [] then add_history_to_vectorstore h vs else vs)"

text \<open>
  The part of \<^verbatim>\<open>__init__\<close> that builds the history and the vector store: the history
  is loaded first, then the vector store is initialised from it. An exception of
  \<^verbatim>\<open>_load_pickle\<close> leaves the constructor.
\<close>

definition init :: "(byte list \<Rightarrow> history option) \<Rightarrow> files \<Rightarrow> string \<Rightarrow> bool \<Rightarrow> document list \<Rightarrow> error + bot" where
  "init loads fs path populated stored =
     (case load_pickle loads fs path of
        Inl e \<Rightarrow> Inl e
      | Inr h \<Rightarrow>
          Inr \<lparr>disk = fs, pickle_path = path, conversation_history = h,
               vectorstore = initialize_vectorstore populated stored h\<rparr>)"

section \<open>One turn: \<open>chat\<close>\<close>

text \<open>
  What the collaborators do in one turn: the retrieval chain returns an answer or raises,
  \<^verbatim>\<open>vectorstore.add_documents\<close> succeeds or raises, and the write of the history file
  succeeds or fails as described by a \<^typ>\<open>write_fault\<close>.
\<close>

record turn =
  chain_result :: "error + string"
  add_fails :: bool
  save_fault :: "write_fault option"

text \<open>
  \<^verbatim>\<open>chat\<close>, statement by statement: the chain is called; the two messages are appended
  to the history; the combined document is added to the vector store; the history is
  saved; the answer is returned. No statement is inside a \<^verbatim>\<open>try\<close>, so an exception
  ends the call at once, with the state as the earlier statements left it.
\<close>

definition chat :: "(history \<Rightarrow> byte list) \<Rightarrow> turn \<Rightarrow> string \<Rightarrow> bot \<Rightarrow> (error + string) \<times> bot" where
  "chat dumps t user_input s =
     (case chain_result t of
        Inl e \<Rightarrow> (Inl e, s)
      | Inr answer \<Rightarrow>
          (let s1 = s\<lparr>conversation_history :=
                        (conversation_history s @ [\<lparr>role = ''HumanMessage'', content = user_input\<rparr>])
                          @ [\<lparr>role = ''AIMessage'', content = answer\<rparr>]\<rparr>;
               combined = combined_text user_input answer
           in if add_fails t then (Inl IndexAddError, s1)
              else
                (let s2 = s1\<lparr>vectorstore := vectorstore s1 @ [\<lparr>page_content = combined\<rparr>]\<rparr>
                 in case save_pickle dumps (save_fault t) s2 of
                      (Inl e, s3) \<Rightarrow> (Inl e, s3)
                    | (Inr u, s3) \<Rightarrow> (Inr answer, s3))))"

text \<open>
  The chat loop of the main program, for the inputs that reach \<^verbatim>\<open>bot.chat\<close>: the call
  is not inside a \<^verbatim>\<open>try\<close>, so the first exception ends the program.
\<close>

fun chat_loop :: "(history \<Rightarrow> byte list) \<Rightarrow> (turn \<times> string) list \<Rightarrow> bot \<Rightarrow> (error + unit) \<times> bot" where
  "chat_loop dumps [] s = (Inr (), s)"
| "chat_loop dumps ((t, user_input) # rest) s =
     (case chat dumps t user_input s of
        (Inl e, s') \<Rightarrow> (Inl e, s')
      | (Inr response, s') \<Rightarrow> chat_loop dumps rest s')"

section \<open>Unpickled objects\<close>

text \<open>
  \<^verbatim>\<open>pickle.load\<close> returns whatever object the bytes describe, and neither program
  checks what it got. The built-in values that occur here: \<^verbatim>\<open>None\<close>, booleans,
  integers, strings, tuples, lists, and dictionaries as lists of key-value pairs in
  insertion order.
\<close>

datatype pyobj =
    PyNone
  | PyBool bool
  | PyInt int
  | PyStr string
  | PyTuple "pyobj list"
  | PyList "pyobj list"
  | PyDict "(pyobj \<times> pyobj) list"

text \<open>Python's truth value, as \<^verbatim>\<open>if saved:\<close> tests it.\<close>

fun truthy :: "pyobj \<Rightarrow> bool" where
  "truthy PyNone = False"
| "truthy (PyBool b) = b"
| "truthy (PyInt n) = (n \<noteq> 0)"
| "truthy (PyStr s) = (s \<noteq> [])"
| "truthy (PyTuple xs) = (xs \<noteq> [])"
| "truthy (PyList xs) = (xs \<noteq> [])"
| "truthy (PyDict kvs) = (kvs \<noteq> [])"

text \<open>
  The items a \<^verbatim>\<open>for\<close> loop draws from an object: the elements of a tuple or list,
  the characters of a string, the keys of a dictionary; the other values are not
  iterable and raise \<^verbatim>\<open>TypeError\<close>.
\<close>

fun iterate :: "pyobj \<Rightarrow> error + pyobj list" where
  "iterate (PyStr s) = Inr (map (\<lambda>c. PyStr [c]) s)"
| "iterate (PyTuple xs) = Inr xs"
| "iterate (PyList xs) = Inr xs"
| "iterate (PyDict kvs) = Inr (map fst kvs)"
| "iterate PyNone = Inl TypeError"
| "iterate (PyBool b) = Inl TypeError"
| "iterate (PyInt n) = Inl TypeError"

text \<open>
  The unpacking \<^verbatim>\<open>role, content = item\<close> done by \<^verbatim>\<open>for role, content in data\<close>:
  the item must be iterable and yield exactly two values, else \<^verbatim>\<open>ValueError\<close>.
\<close>

definition unpack_pair :: "pyobj \<Rightarrow> error + pyobj \<times> pyobj" where
  "unpack_pair item =
     (case iterate item of
        Inl e \<Rightarrow> Inl e
      | Inr values \<Rightarrow>
          (case values of
             [] \<Rightarrow> Inl ValueError
           | r # rest \<Rightarrow>
               (case rest of
                  [] \<Rightarrow> Inl ValueError
                | c # extra \<Rightarrow> if extra = [] then Inr (r, c) else Inl ValueError)))"

text \<open>
  The history of \<open>run_astrobot.py\<close> as the object that \<^verbatim>\<open>pickle.load\<close> returns for
  it: a list of dictionaries with the keys \<^verbatim>\<open>'role'\<close> and \<^verbatim>\<open>'content'\<close>.
\<close>

definition message_object :: "message \<Rightarrow> pyobj" where
  "message_object m =
     PyDict [(PyStr ''role'', PyStr (role m)), (PyStr ''content'', PyStr (content m))]"

definition history_object :: "history \<Rightarrow> pyobj" where
  "history_object h = PyList (map message_object h)"

text \<open>
  \<^verbatim>\<open>_load_pickle\<close> on any file: the object that \<^verbatim>\<open>pickle.load\<close> returns is handed
  back as it is, whatever it is; an exception of \<^verbatim>\<open>pickle.load\<close> (\<open>None\<close>) is not
  caught; without a file the result is the empty list. The function \<open>load_pickle\<close>
  above is this one on files that hold a history.
\<close>

definition load_pickle_object ::
    "(byte list \<Rightarrow> pyobj option) \<Rightarrow> files \<Rightarrow> string \<Rightarrow> error + pyobj" where
  "load_pickle_object loads fs path =
     (case fs path of
        Some bytes \<Rightarrow> (case loads bytes of Some obj \<Rightarrow> Inr obj | None \<Rightarrow> Inl UnpicklingError)
      | None \<Rightarrow> Inr (PyList []))"

section \<open>The memory load of the script \<open>rag_astrobot.py\<close>\<close>

text \<open>
  The LangChain message objects that the script builds, with the object passed to the
  constructor as content. The constructors are library code: the model records the call
  and does not say which contents they accept.
\<close>

datatype chat_message = HumanMessage pyobj | AIMessage pyobj

text \<open>
  The loop of \<^verbatim>\<open>_deserialize_messages\<close> over the items of \<^verbatim>\<open>data\<close>, with the list
  \<^verbatim>\<open>out\<close> as accumulator: each item is unpacked into \<^verbatim>\<open>role, content\<close>, and every
  role other than the string \<^verbatim>\<open>"HumanMessage"\<close> gives an AI message.
\<close>

fun deserialize_loop :: "pyobj list \<Rightarrow> chat_message list \<Rightarrow> error + chat_message list" where
  "deserialize_loop [] out = Inr out"
| "deserialize_loop (item # data) out =
     (case unpack_pair item of
        Inl e \<Rightarrow> Inl e
      | Inr (r, c) \<Rightarrow>
          deserialize_loop data
            (out @ [if r = PyStr ''HumanMessage'' then HumanMessage c else AIMessage c]))"

definition deserialize_messages :: "pyobj \<Rightarrow> error + chat_message list" where
  "deserialize_messages data =
     (case iterate data of Inl e \<Rightarrow> Inl e | Inr items \<Rightarrow> deserialize_loop items [])"

text \<open>
  The \<^verbatim>\<open>try\<close> statement that sets \<^verbatim>\<open>saved\<close>: only \<^verbatim>\<open>FileNotFoundError\<close> is
  caught, so the exception of \<^verbatim>\<open>pickle.load\<close> leaves the script.
\<close>

definition read_saved :: "(byte list \<Rightarrow> pyobj option) \<Rightarrow> files \<Rightarrow> string \<Rightarrow> error + pyobj" where
  "read_saved loads fs memory_file =
     (case fs memory_file of
        None \<Rightarrow> Inr PyNone
      | Some bytes \<Rightarrow> (case loads bytes of None \<Rightarrow> Inl UnpicklingError | Some obj \<Rightarrow> Inr obj))"

text \<open>
  The messages of the new memory: empty unless \<^verbatim>\<open>if saved:\<close> holds, in which case
  they are what \<^verbatim>\<open>_deserialize_messages(saved)\<close> returns.
\<close>

definition load_memory ::
    "(byte list \<Rightarrow> pyobj option) \<Rightarrow> files \<Rightarrow> string \<Rightarrow> error + chat_message list" where
  "load_memory loads fs memory_file =
     (case read_saved loads fs memory_file of
        Inl e \<Rightarrow> Inl e
      | Inr saved \<Rightarrow> if truthy saved then deserialize_messages saved else Inr [])"

section \<open>Document ingestion in the main loop\<close>

datatype loader = TextLoader string | PyPDFLoader string | Docx2txtLoader string

text \<open>What the ingestion command prints: a literal line, the success line with the number
  of chunks, or the error line with the exception.\<close>

datatype printed = Line string | Added_chunks nat | Error_loading error

text \<open>Python's \<^verbatim>\<open>str.endswith\<close>.\<close>

definition endswith :: "string \<Rightarrow> string \<Rightarrow> bool" where
  "endswith s ext = (length ext \<le> length s \<and> drop (length s - length ext) s = ext)"

text \<open>The \<^verbatim>\<open>if/elif/else\<close> chain that picks the loader, with what it prints.\<close>

definition select_loader :: "string \<Rightarrow> printed list \<times> loader" where
  "select_loader doc_path =
     (if endswith doc_path ''.txt'' then ([], TextLoader doc_path)
      else if endswith doc_path ''.pdf'' then ([], PyPDFLoader doc_path)
      else if endswith doc_path ''.docx'' then ([], Docx2txtLoader doc_path)
      else ([Line ''Unsupported file type. Attempting TextLoader...''], TextLoader doc_path))"

text \<open>
  The body of the \<^verbatim>\<open>'add a document'\<close> command. The loaders and the text splitter are
  library objects: \<open>load\<close> gives the outcome of \<^verbatim>\<open>loader.load()\<close>, \<open>split\<close> the
  chunks of \<^verbatim>\<open>split_documents\<close>, \<open>add_raises\<close> whether \<^verbatim>\<open>add_documents\<close> raises.
  The \<^verbatim>\<open>except Exception\<close> clause prints the error, and the loop continues.
\<close>

definition add_a_document ::
    "(loader \<Rightarrow> error + document list) \<Rightarrow> (document list \<Rightarrow> document list) \<Rightarrow> bool \<Rightarrow>
     string \<Rightarrow> bot \<Rightarrow> printed list \<times> bot" where
  "add_a_document load split add_raises doc_path s =
     (let (out, loader) = select_loader doc_path in
      case load loader of
        Inl e \<Rightarrow> (out @ [Error_loading e], s)
      | Inr documents \<Rightarrow>
          (let splits = split documents in
           if add_raises then (out @ [Error_loading IndexAddError], s)
           else (out @ [Added_chunks (length splits)],
                 s\<lparr>vectorstore := vectorstore s @ splits\<rparr>)))"

section \<open>A concrete byte format for worked examples\<close>

text \<open>
  The theorems below hold for any \<open>dumps\<close> and \<open>loads\<close>. To run them on concrete
  inputs, this section fixes one simple byte format with the two properties of the
  library's format that matter here: the output always ends with a stop byte (the
  \<^verbatim>\<open>.\<close> opcode), and bytes that are cut short cannot be read back.
\<close>

fun encode_string :: "string \<Rightarrow> byte list" where
  "encode_string [] = [0]"
| "encode_string (c # cs) = 1 # of_char c # encode_string cs"

fun sample_dumps :: "history \<Rightarrow> byte list" where
  "sample_dumps [] = [0x2E]"
| "sample_dumps (m # ms) = encode_string (role m) @ encode_string (content m) @ sample_dumps ms"

text \<open>Reading: \<open>cur\<close> is the string being read, \<open>done\<close> the strings read so far.\<close>

fun decode_strings :: "byte list \<Rightarrow> string \<Rightarrow> string list \<Rightarrow> string list option" where
  "decode_strings [] cur done = None"
| "decode_strings [b] cur done = (if b = 0x2E \<and> cur = [] then Some done else None)"
| "decode_strings (b # c # bs) cur done =
     (if b = 0 then decode_strings (c # bs) [] (done @ [cur])
      else if b = 1 then decode_strings bs (cur @ [char_of (unat c)]) done
      else None)"

fun pair_messages :: "string list \<Rightarrow> history option" where
  "pair_messages [] = Some []"
| "pair_messages [r] = None"
| "pair_messages (r # c # rest) =
     (case pair_messages rest of
        None \<Rightarrow> None
      | Some ms \<Rightarrow> Some (\<lparr>role = r, content = c\<rparr> # ms))"

definition sample_loads :: "byte list \<Rightarrow> history option" where
  "sample_loads bytes =
     (case decode_strings bytes [] [] of None \<Rightarrow> None | Some strs \<Rightarrow> pair_messages strs)"

section \<open>Concrete runs used in the worked examples\<close>

text \<open>The default of the constructor's \<^verbatim>\<open>pickle_path\<close> argument.\<close>

definition memory_path :: string where
  "memory_path = ''conversation_memory.pkl''"

text \<open>A turn in which every collaborator succeeds and the chain answers \<open>answer\<close>.\<close>

definition succeeds :: "string \<Rightarrow> turn" where
  "succeeds answer = \<lparr>chain_result = Inr answer, add_fails = False, save_fault = None\<rparr>"

text \<open>A turn in which only \<^verbatim>\<open>add_documents\<close> raises.\<close>

definition index_down :: "string \<Rightarrow> turn" where
  "index_down answer = \<lparr>chain_result = Inr answer, add_fails = True, save_fault = None\<rparr>"

text \<open>A turn in which only the write of the history file fails, after \<open>k\<close> bytes.\<close>

definition write_stops :: "string \<Rightarrow> nat \<Rightarrow> turn" where
  "write_stops answer k =
     \<lparr>chain_result = Inr answer, add_fails = False, save_fault = Some (WriteFailsAfter k)\<rparr>"

text \<open>The bot on a machine with no history file and no stored documents.\<close>

definition fresh_bot :: bot where
  "fresh_bot = \<lparr>disk = Map.empty, pickle_path = memory_path,
                conversation_history = [], vectorstore = []\<rparr>"

text \<open>The state at the end of a first run with the single exchange \<open>hi\<close> / \<open>hello\<close>.\<close>

definition first_run :: bot where
  "first_run = snd (chat_loop sample_dumps [(succeeds ''hello'', ''hi'')] fresh_bot)"

text \<open>The two messages and the document of that exchange.\<close>

definition hi_message :: message where
  "hi_message = \<lparr>role = ''HumanMessage'', content = ''hi''\<rparr>"

definition hello_message :: message where
  "hello_message = \<lparr>role = ''AIMessage'', content = ''hello''\<rparr>"

definition hi_hello_document :: document where
  "hi_hello_document = \<lparr>page_content = ''Human: hi'' @ [CHR 0x0A] @ ''Assistant: hello''\<rparr>"

text \<open>A second exchange, \<open>more\<close> / \<open>sure\<close>.\<close>

definition more_message :: message where
  "more_message = \<lparr>role = ''HumanMessage'', content = ''more''\<rparr>"

definition sure_message :: message where
  "sure_message = \<lparr>role = ''AIMessage'', content = ''sure''\<rparr>"

definition more_sure_document :: document where
  "more_sure_document = \<lparr>page_content = ''Human: more'' @ [CHR 0x0A] @ ''Assistant: sure''\<rparr>"

text \<open>
  The second run at the moment \<^verbatim>\<open>chat\<close> is about to save: the history already holds
  the second exchange, the file still holds the first run's history.
\<close>

definition second_turn :: bot where
  "second_turn = first_run\<lparr>conversation_history :=
      conversation_history first_run @ [more_message, sure_message]\<rparr>"

text \<open>Two turns in which every collaborator succeeds.\<close>

definition two_turns :: "(turn \<times> string) list" where
  "two_turns = [(succeeds ''hello'', ''hi''), (succeeds ''sure'', ''more'')]"

text \<open>
  The sample format read as objects. A file in the sample format gives the object of its
  history. Three short files are read as the library reads them: \<^verbatim>\<open>N.\<close> is
  \<^verbatim>\<open>None\<close>, \<^verbatim>\<open>K\x00.\<close> is the integer \<open>0\<close>, and \<^verbatim>\<open>}.\<close> is the empty
  dictionary. None of the three holds a history.
\<close>

definition sample_loads_object :: "byte list \<Rightarrow> pyobj option" where
  "sample_loads_object bytes =
     (if bytes = [0x4E, 0x2E] then Some PyNone
      else if bytes = [0x4B, 0x00, 0x2E] then Some (PyInt 0)
      else if bytes = [0x7D, 0x2E] then Some (PyDict [])
      else map_option history_object (sample_loads bytes))"

text \<open>A loader outcome for the examples: the plain-text loader reads one document, the
  others fail.\<close>

definition sample_load :: "loader \<Rightarrow> error + document list" where
  "sample_load l =
     (case l of
        TextLoader p \<Rightarrow> Inr [\<lparr>page_content = ''plain text''\<rparr>]
      | PyPDFLoader p \<Rightarrow> Inl LoaderError
      | Docx2txtLoader p \<Rightarrow> Inl LoaderError)"

section \<open>The history loop indexes the human messages\<close>

declare history_loop.simps [simp del]

lemma human_positions_end: "\<not> i < length h \<Longrightarrow> human_positions h i = []"
  by (simp add: human_positions_def)

lemma human_positions_step:
  "i < length h \<Longrightarrow>
   human_positions h i =
     (if role (h ! i) = ''HumanMessage'' then [i] else []) @ human_positions h (Suc i)"
  by (simp add: human_positions_def upt_conv_Cons)

lemma human_positions_skip_reply:
  "i < length h \<Longrightarrow> role (h ! i) = ''AIMessage'' \<Longrightarrow>
   human_positions h i = human_positions h (Suc i)"
  by (simp add: human_positions_step)

text \<open>
  The loop, started at any position with any documents collected so far, appends the
  exchange documents of the human positions that are still ahead. The proof follows the
  loop: past the end; a message that is not human; a human message with a reply (the
  reply is skipped, and it is not a human position); a human message without one.
\<close>

lemma history_loop_eq:
  "history_loop h i documents = documents @ map (exchange_document h) (human_positions h i)"
proof (induction h i documents rule: history_loop.induct)
  case (1 h i documents)
  show ?case
  proof (cases "i < length h")
    case False
    then show ?thesis
      by (simp add: history_loop.simps [of h i] human_positions_end)
  next
    case inside: True
    show ?thesis
    proof (cases "role (h ! i) = ''HumanMessage''")
      case False
      with inside 1(2) show ?thesis
        by (simp add: history_loop.simps [of h i] human_positions_step)
    next
      case human: True
      show ?thesis
      proof (cases "i + 1 < length h \<and> role (h ! (i + 1)) = ''AIMessage''")
        case True
        with inside human
          1(1) [OF inside refl human refl,
                of "(content (h ! (i + 1)), i + 1)" "content (h ! (i + 1))" "i + 1"]
        show ?thesis
          by (simp add: history_loop.simps [of h i] human_positions_step [of i]
              human_positions_skip_reply exchange_document_def reply_at_def)
      next
        case False
        with inside human 1(1) [OF inside refl human refl, of "('''', i)" "''''" "i"]
        show ?thesis
          by (simp add: history_loop.simps [of h i] human_positions_step [of i]
              exchange_document_def reply_at_def)
      qed
    qed
  qed
qed

lemma add_history_eq:
  "add_history_to_vectorstore h vs = vs @ map (exchange_document h) (human_positions h 0)"
  by (simp add: add_history_to_vectorstore_def history_loop_eq)



section \<open>The sample byte format reads back what it wrote\<close>

lemma char_of_byte: "char_of (unat (of_char c :: byte)) = c"
proof -
  have "(of_char c :: byte) = of_nat (of_char c)"
    by (simp only: of_nat_of_char)
  then have "unat (of_char c :: byte) = of_char c mod 256"
    by (simp only: unat_of_nat) simp
  then have "unat (of_char c :: byte) = of_char c"
    by simp
  then show ?thesis by simp
qed

lemma sample_dumps_nonempty: "sample_dumps ms \<noteq> []"
  by (induction ms) auto

lemma decode_encode_string:
  "rest \<noteq> [] \<Longrightarrow>
   decode_strings (encode_string s @ rest) cur done = decode_strings rest [] (done @ [cur @ s])"
proof (induction s arbitrary: cur)
  case Nil
  then show ?case by (cases rest) simp_all
next
  case (Cons c s)
  then show ?case by (simp add: char_of_byte)
qed

lemma decode_sample_dumps:
  "decode_strings (sample_dumps ms) [] done =
     Some (done @ concat (map (\<lambda>m. [role m, content m]) ms))"
proof (induction ms arbitrary: "done")
  case Nil
  show ?case by simp
next
  case (Cons m ms)
  then show ?case
    by (simp add: decode_encode_string sample_dumps_nonempty)
qed

lemma pair_messages_flat: "pair_messages (concat (map (\<lambda>m. [role m, content m]) ms)) = Some ms"
  by (induction ms) auto

lemma sample_roundtrip: "sample_loads (sample_dumps h) = Some h"
  using decode_sample_dumps [of h "[]"] by (simp add: sample_loads_def pair_messages_flat)

text \<open>Three bytes, the start of an encoded string, are not a complete file.\<close>

lemma sample_loads_cut: "sample_loads [1, 72, 1] = None"
  by (simp add: sample_loads_def)

section \<open>The concrete runs, evaluated\<close>

lemma first_run_history: "conversation_history first_run = [hi_message, hello_message]"
  by (simp add: first_run_def fresh_bot_def succeeds_def chat_def save_pickle_def
      hi_message_def hello_message_def)

lemma first_run_vectorstore: "vectorstore first_run = [hi_hello_document]"
  by (simp add: first_run_def fresh_bot_def succeeds_def chat_def save_pickle_def
      hi_hello_document_def combined_text_def)

lemma first_run_disk:
  "disk first_run = [memory_path \<mapsto> sample_dumps [hi_message, hello_message]]"
  by (simp add: first_run_def fresh_bot_def succeeds_def chat_def save_pickle_def
      hi_message_def hello_message_def)

lemma first_run_path: "pickle_path first_run = memory_path"
  by (simp add: first_run_def fresh_bot_def succeeds_def chat_def save_pickle_def)

lemma first_run_load:
  "load_pickle sample_loads (disk first_run) memory_path = Inr [hi_message, hello_message]"
  by (simp add: load_pickle_def first_run_disk sample_roundtrip del: sample_dumps.simps)

lemma hi_hello_documents:
  "map (exchange_document [hi_message, hello_message])
       (human_positions [hi_message, hello_message] 0)
     = [hi_hello_document]"
  by (simp add: human_positions_def exchange_document_def reply_at_def hi_message_def
      hello_message_def hi_hello_document_def combined_text_def upt_conv_Cons)

lemma second_turn_history:
  "conversation_history second_turn = [hi_message, hello_message, more_message, sure_message]"
  by (simp add: second_turn_def first_run_history)

lemma second_turn_path: "pickle_path second_turn = memory_path"
  by (simp add: second_turn_def first_run_path)

lemma second_turn_cut:
  "take 3 (sample_dumps (conversation_history second_turn)) = [1, 72, 1]"
  by (simp add: second_turn_history hi_message_def)

section \<open>Loading the history\<close>

text \<open>
  On files that hold a history the two readings of \<^verbatim>\<open>_load_pickle\<close> agree: when
  \<^verbatim>\<open>pickle.load\<close> yields only objects of histories, the general function returns
  the object of what the typed function returns.
\<close>

lemma load_pickle_object_history:
  assumes "\<And>bytes. loads_object bytes = map_option history_object (loads bytes)"
  shows "load_pickle_object loads_object fs path =
           map_sum id history_object (load_pickle loads fs path)"
  by (simp add: load_pickle_object_def load_pickle_def assms history_object_def
      split: option.splits)


text \<open>
  The script reading the file that the bot wrote in its first run: each dictionary is
  unpacked into its two keys, so every message becomes an AI message with the content
  \<^verbatim>\<open>'content'\<close>, and no error is raised.
\<close>

lemma script_reads_bot_file:
  "load_memory sample_loads_object (disk first_run) memory_path =
     Inr [AIMessage (PyStr ''content''), AIMessage (PyStr ''content'')]"
proof -
  have "sample_loads_object (sample_dumps [hi_message, hello_message]) =
      Some (history_object [hi_message, hello_message])"
    unfolding sample_loads_object_def sample_roundtrip
    by (simp add: hi_message_def)
  then show ?thesis
    by (simp add: load_memory_def read_saved_def first_run_disk history_object_def
        message_object_def deserialize_messages_def unpack_pair_def
        del: sample_dumps.simps)
qed




section \<open>Saving the history\<close>

text \<open>
  Claim C5. For every history and every path: when \<^verbatim>\<open>pickle.load\<close> reads back what
  \<^verbatim>\<open>pickle.dump\<close> writes for this history, loading right after a save that completed
  returns the history that was saved, with the same messages in the same order.
\<close>

theorem load_after_save_roundtrip:
  assumes "loads (dumps (conversation_history s)) = Some (conversation_history s)"
    and "save_pickle dumps None s = (r, s')"
  shows "r = Inr ()
         \<and> load_pickle loads (disk s') (pickle_path s') = Inr (conversation_history s)
         \<and> conversation_history s' = conversation_history s"
  using assms by (auto simp: save_pickle_def load_pickle_def)

text \<open>The save of the second run's history, read back.\<close>

theorem load_after_save_roundtrip_witness:
  "sample_loads (sample_dumps (conversation_history second_turn))
     = Some (conversation_history second_turn)
   \<and> save_pickle sample_dumps None second_turn =
       (Inr (), second_turn\<lparr>disk := (disk second_turn)(memory_path \<mapsto>
                  sample_dumps (conversation_history second_turn))\<rparr>)
   \<and> load_pickle sample_loads
        ((disk second_turn)(memory_path \<mapsto> sample_dumps (conversation_history second_turn)))
        memory_path
       = Inr [hi_message, hello_message, more_message, sure_message]"
proof -
  have codec: "sample_loads (sample_dumps (conversation_history second_turn))
      = Some (conversation_history second_turn)"
    by (rule sample_roundtrip)
  have run: "save_pickle sample_dumps None second_turn =
       (Inr (), second_turn\<lparr>disk := (disk second_turn)(memory_path \<mapsto>
                  sample_dumps (conversation_history second_turn))\<rparr>)"
    by (simp add: save_pickle_def second_turn_path)
  from load_after_save_roundtrip [of sample_loads sample_dumps second_turn, OF codec run]
    codec run second_turn_path second_turn_history
  show ?thesis by simp
qed

text \<open>
  Claim C2 as stated does not hold. The second run's save stops after three bytes: before
  it the file held the first run's history and could be read; after it the file holds
  those three bytes, which are neither the old content nor the complete new content, and
  it cannot be read.
\<close>

theorem save_pickle_failure_leaves_partial_file:
  "load_pickle sample_loads (disk second_turn) memory_path = Inr [hi_message, hello_message]
   \<and> disk (snd (save_pickle sample_dumps (Some (WriteFailsAfter 3)) second_turn)) memory_path
       = Some [1, 72, 1]
   \<and> disk second_turn memory_path \<noteq> Some [1, 72, 1]
   \<and> sample_dumps (conversation_history second_turn) \<noteq> [1, 72, 1]
   \<and> load_pickle sample_loads
         (disk (snd (save_pickle sample_dumps (Some (WriteFailsAfter 3)) second_turn)))
         memory_path = Inl UnpicklingError"
proof -
  have old: "load_pickle sample_loads (disk second_turn) memory_path
      = Inr [hi_message, hello_message]"
    by (simp add: second_turn_def first_run_load)
  have new: "disk (snd (save_pickle sample_dumps (Some (WriteFailsAfter 3)) second_turn))
      memory_path = Some [1, 72, 1]"
    by (simp add: save_pickle_def second_turn_path second_turn_cut)
  have differs: "disk second_turn memory_path \<noteq> Some [1, 72, 1]"
    by (simp add: second_turn_def first_run_disk hi_message_def)
  have incomplete: "sample_dumps (conversation_history second_turn) \<noteq> [1, 72, 1]"
    by (simp add: second_turn_history hi_message_def)
  have unreadable: "load_pickle sample_loads
      (disk (snd (save_pickle sample_dumps (Some (WriteFailsAfter 3)) second_turn)))
      memory_path = Inl UnpicklingError"
    by (simp add: load_pickle_def new sample_loads_cut)
  from old new differs incomplete unreadable show ?thesis by simp
qed

text \<open>
  Claim C2, amended. \<^verbatim>\<open>_save_pickle\<close> opens the target file itself and writes the
  history straight into it; there is no temporary file and no replace step. A save that
  completes leaves the complete new version in the file. A save that fails after \<open>k\<close>
  bytes leaves exactly the first \<open>k\<close> bytes of the new version there, and the error is
  raised. Only when the file cannot be opened does the disk stay as it was. In no case
  does the save change the history in memory, the vector store or the path.
\<close>

theorem save_pickle_writes_target_in_place:
  assumes "save_pickle dumps fault s = (r, s')"
  shows "(case fault of
            None \<Rightarrow> r = Inr () \<and> disk s' (pickle_path s) = Some (dumps (conversation_history s))
          | Some OpenFails \<Rightarrow> r = Inl WriteError \<and> disk s' = disk s
          | Some (WriteFailsAfter k) \<Rightarrow>
              r = Inl WriteError
              \<and> disk s' (pickle_path s) = Some (take k (dumps (conversation_history s))))
         \<and> conversation_history s' = conversation_history s
         \<and> vectorstore s' = vectorstore s
         \<and> pickle_path s' = pickle_path s"
  using assms
  by (auto simp: save_pickle_def split: option.splits write_fault.splits)

text \<open>The interrupted save of the second run.\<close>

theorem save_pickle_writes_target_in_place_witness:
  "save_pickle sample_dumps (Some (WriteFailsAfter 3)) second_turn =
     (Inl WriteError, second_turn\<lparr>disk := (disk second_turn)(memory_path \<mapsto> [1, 72, 1])\<rparr>)
   \<and> disk (second_turn\<lparr>disk := (disk second_turn)(memory_path \<mapsto> [1, 72, 1])\<rparr>)
        (pickle_path second_turn)
       = Some (take 3 (sample_dumps (conversation_history second_turn)))"
proof -
  have run: "save_pickle sample_dumps (Some (WriteFailsAfter 3)) second_turn =
     (Inl WriteError, second_turn\<lparr>disk := (disk second_turn)(memory_path \<mapsto> [1, 72, 1])\<rparr>)"
    by (simp add: save_pickle_def second_turn_path second_turn_cut)
  from save_pickle_writes_target_in_place [OF run] run show ?thesis by simp
qed

section \<open>Start-up indexes the loaded history again\<close>

text \<open>
  Claim C1 as stated does not hold. The first run made one exchange, saved it and indexed
  it once. The next start loads that history from the file, finds the one document in the
  vector store, and leaves the vector store with two copies of it.
\<close>

theorem restart_indexes_exchange_twice:
  "load_pickle sample_loads (disk first_run) memory_path = Inr [hi_message, hello_message]
   \<and> vectorstore first_run = [hi_hello_document]
   \<and> init sample_loads (disk first_run) memory_path True (vectorstore first_run) =
       Inr \<lparr>disk = disk first_run, pickle_path = memory_path,
            conversation_history = [hi_message, hello_message],
            vectorstore = [hi_hello_document, hi_hello_document]\<rparr>"
  by (simp add: init_def first_run_load first_run_vectorstore initialize_vectorstore_def
      add_history_eq hi_hello_documents)

text \<open>
  Claim C1, amended. For every non-empty history loaded at start-up, initialization
  indexes the whole loaded history again: whatever documents the vector store already
  holds, it appends one combined document per \<^verbatim>\<open>HumanMessage\<close> of the history to
  them. An exchange that a prior run has indexed therefore has one more document in the
  index after each restart.
\<close>

theorem init_reindexes_loaded_history:
  assumes "load_pickle loads fs path = Inr h" and "h \<noteq> []"
  shows "init loads fs path populated stored =
           Inr \<lparr>disk = fs, pickle_path = path, conversation_history = h,
                vectorstore = stored @ map (exchange_document h) (human_positions h 0)\<rparr>"
  using assms by (simp add: init_def initialize_vectorstore_def add_history_eq)

text \<open>A start on a history of one human message, with one document already stored.\<close>

theorem init_reindexes_loaded_history_witness:
  "load_pickle sample_loads [memory_path \<mapsto> sample_dumps [hi_message]] memory_path
     = Inr [hi_message]
   \<and> [hi_message] \<noteq> []
   \<and> init sample_loads [memory_path \<mapsto> sample_dumps [hi_message]] memory_path False
         [hi_hello_document] =
       Inr \<lparr>disk = [memory_path \<mapsto> sample_dumps [hi_message]], pickle_path = memory_path,
            conversation_history = [hi_message],
            vectorstore = [hi_hello_document,
                           \<lparr>page_content = ''Human: hi'' @ [CHR 0x0A] @ ''Assistant: ''\<rparr>]\<rparr>"
proof -
  have loaded: "load_pickle sample_loads [memory_path \<mapsto> sample_dumps [hi_message]] memory_path
      = Inr [hi_message]"
    by (simp add: load_pickle_def sample_roundtrip del: sample_dumps.simps)
  have nonempty: "[hi_message] \<noteq> []" by simp
  have docs: "map (exchange_document [hi_message]) (human_positions [hi_message] 0) =
      [\<lparr>page_content = ''Human: hi'' @ [CHR 0x0A] @ ''Assistant: ''\<rparr>]"
    by (simp add: human_positions_def exchange_document_def reply_at_def hi_message_def
        combined_text_def)
  from init_reindexes_loaded_history [OF loaded nonempty, of False "[hi_hello_document]"]
    loaded docs
  show ?thesis by simp
qed

section \<open>One turn\<close>

text \<open>What a call of \<^verbatim>\<open>chat\<close> that returns has done.\<close>

lemma chat_returns:
  assumes "chat dumps t user_input s = (Inr a, s')"
  shows "chain_result t = Inr a" and "\<not> add_fails t" and "save_fault t = None"
    and "s' = s\<lparr>conversation_history :=
                  conversation_history s @ [\<lparr>role = ''HumanMessage'', content = user_input\<rparr>,
                                            \<lparr>role = ''AIMessage'', content = a\<rparr>],
                vectorstore := vectorstore s @ [\<lparr>page_content = combined_text user_input a\<rparr>],
                disk := (disk s)(pickle_path s \<mapsto>
                  dumps (conversation_history s @ [\<lparr>role = ''HumanMessage'', content = user_input\<rparr>,
                                            \<lparr>role = ''AIMessage'', content = a\<rparr>]))\<rparr>"
  using assms
  by (auto simp: chat_def save_pickle_def Let_def
      split: sum.splits if_splits option.splits write_fault.splits)

text \<open>
  Claim C10. For every user input, when \<^verbatim>\<open>chat\<close> returns a string, that string is the
  content of the \<^verbatim>\<open>AIMessage\<close> which the call appended as the last element of the
  history (after the \<^verbatim>\<open>HumanMessage\<close> with the user input), and it is the Assistant
  part of the one document which the call added to the vector store.
\<close>

theorem chat_answer_is_recorded:
  assumes "chat dumps t user_input s = (Inr a, s')"
  shows "conversation_history s' =
           conversation_history s @ [\<lparr>role = ''HumanMessage'', content = user_input\<rparr>,
                                     \<lparr>role = ''AIMessage'', content = a\<rparr>]
         \<and> last (conversation_history s') = \<lparr>role = ''AIMessage'', content = a\<rparr>
         \<and> vectorstore s' =
             vectorstore s @ [\<lparr>page_content =
               ''Human: '' @ user_input @ [CHR 0x0A] @ ''Assistant: '' @ a\<rparr>]"
  using chat_returns(4) [OF assms] by (simp add: combined_text_def)

text \<open>The first turn of a fresh bot.\<close>

theorem chat_answer_is_recorded_witness:
  "chat sample_dumps (succeeds ''hello'') ''hi'' fresh_bot =
     (Inr ''hello'',
      \<lparr>disk = [memory_path \<mapsto> sample_dumps [hi_message, hello_message]],
       pickle_path = memory_path,
       conversation_history = [hi_message, hello_message],
       vectorstore = [hi_hello_document]\<rparr>)
   \<and> last [hi_message, hello_message] = \<lparr>role = ''AIMessage'', content = ''hello''\<rparr>
   \<and> [hi_hello_document] =
       vectorstore fresh_bot @ [\<lparr>page_content =
               ''Human: '' @ ''hi'' @ [CHR 0x0A] @ ''Assistant: '' @ ''hello''\<rparr>]"
proof -
  have run: "chat sample_dumps (succeeds ''hello'') ''hi'' fresh_bot =
     (Inr ''hello'',
      \<lparr>disk = [memory_path \<mapsto> sample_dumps [hi_message, hello_message]],
       pickle_path = memory_path,
       conversation_history = [hi_message, hello_message],
       vectorstore = [hi_hello_document]\<rparr>)"
    by (simp add: chat_def save_pickle_def succeeds_def fresh_bot_def hi_message_def
        hello_message_def hi_hello_document_def combined_text_def)
  from chat_answer_is_recorded [OF run] run show ?thesis by simp
qed

text \<open>
  Claim C3 as stated does not hold. In the first turn of a fresh bot the chain answers,
  \<^verbatim>\<open>add_documents\<close> raises, and nothing would stop the save. The call ends with the
  index error, the two messages are in the history in memory, and no history file has
  been written: the save was not attempted.
\<close>

theorem chat_index_failure_skips_save:
  "chat sample_dumps (index_down ''hello'') ''hi'' fresh_bot =
     (Inl IndexAddError,
      fresh_bot\<lparr>conversation_history := [hi_message, hello_message]\<rparr>)
   \<and> save_fault (index_down ''hello'') = None
   \<and> disk (snd (chat sample_dumps (index_down ''hello'') ''hi'' fresh_bot)) memory_path = None"
  by (simp add: chat_def index_down_def fresh_bot_def hi_message_def hello_message_def)

text \<open>
  Claim C3, amended. In \<^verbatim>\<open>chat\<close> the document is added to the index before the
  history is saved, and neither step is guarded. Once the chain has answered, the two
  messages are in the history in memory whatever happens next. If the index insertion
  fails, its error ends the call: the vector store and the disk are as before, so the
  save is not attempted. If the index insertion succeeds, the document is in the vector
  store whether or not the save then fails; a failing save ends the call with the write
  error. A failure is thus never dropped: the call returns the answer only when both
  steps succeeded.
\<close>

theorem chat_failures_propagate:
  assumes "chain_result t = Inr answer" and "chat dumps t user_input s = (r, s')"
  shows "conversation_history s' =
           conversation_history s @ [\<lparr>role = ''HumanMessage'', content = user_input\<rparr>,
                                     \<lparr>role = ''AIMessage'', content = answer\<rparr>]
         \<and> (if add_fails t
             then r = Inl IndexAddError \<and> vectorstore s' = vectorstore s \<and> disk s' = disk s
             else vectorstore s' =
                    vectorstore s @ [\<lparr>page_content = combined_text user_input answer\<rparr>]
                  \<and> (case save_fault t of
                        None \<Rightarrow> r = Inr answer
                          \<and> disk s' (pickle_path s) = Some (dumps (conversation_history s'))
                      | Some OpenFails \<Rightarrow> r = Inl WriteError \<and> disk s' = disk s
                      | Some (WriteFailsAfter k) \<Rightarrow> r = Inl WriteError
                          \<and> disk s' (pickle_path s)
                              = Some (take k (dumps (conversation_history s')))))"
  using assms
  by (auto simp: chat_def save_pickle_def Let_def split: option.splits write_fault.splits)

text \<open>A first turn whose save stops after three bytes: the document is in the index.\<close>

theorem chat_failures_propagate_witness:
  "chain_result (write_stops ''hello'' 3) = Inr ''hello''
   \<and> chat sample_dumps (write_stops ''hello'' 3) ''hi'' fresh_bot =
       (Inl WriteError,
        \<lparr>disk = [memory_path \<mapsto> [1, 72, 1]], pickle_path = memory_path,
         conversation_history = [hi_message, hello_message],
         vectorstore = [hi_hello_document]\<rparr>)
   \<and> vectorstore \<lparr>disk = [memory_path \<mapsto> [1, 72, 1]], pickle_path = memory_path,
         conversation_history = [hi_message, hello_message],
         vectorstore = [hi_hello_document]\<rparr>
       = vectorstore fresh_bot @ [\<lparr>page_content = combined_text ''hi'' ''hello''\<rparr>]"
proof -
  have answered: "chain_result (write_stops ''hello'' 3) = Inr ''hello''"
    by (simp add: write_stops_def)
  have run: "chat sample_dumps (write_stops ''hello'' 3) ''hi'' fresh_bot =
       (Inl WriteError,
        \<lparr>disk = [memory_path \<mapsto> [1, 72, 1]], pickle_path = memory_path,
         conversation_history = [hi_message, hello_message],
         vectorstore = [hi_hello_document]\<rparr>)"
    by (simp add: chat_def save_pickle_def write_stops_def fresh_bot_def hi_message_def
        hello_message_def hi_hello_document_def combined_text_def)
  from chat_failures_propagate [OF answered run] answered run
  show ?thesis by (simp add: write_stops_def)
qed

section \<open>Many turns\<close>

lemma chat_loop_counts:
  "chat_loop dumps turns s = (Inr (), s') \<Longrightarrow>
   length (conversation_history s') = length (conversation_history s) + 2 * length turns
   \<and> length (vectorstore s') = length (vectorstore s) + length turns
   \<and> map role (conversation_history s') =
       map role (conversation_history s)
         @ concat (replicate (length turns) [''HumanMessage'', ''AIMessage''])"
proof (induction turns arbitrary: s)
  case Nil
  then show ?case by simp
next
  case (Cons p turns)
  obtain t user_input where p: "p = (t, user_input)"
    by (cases p)
  obtain r s1 where step: "chat dumps t user_input s = (r, s1)"
    by (cases "chat dumps t user_input s")
  from Cons.prems p step obtain a
    where r: "r = Inr a" and rest: "chat_loop dumps turns s1 = (Inr (), s')"
    by (cases r) auto
  note s1 = chat_returns(4) [OF step [unfolded r]]
  from Cons.IH [OF rest] show ?case
    by (simp add: s1)
qed

text \<open>
  Claim C4. Start with no history file and no stored documents, so that the constructor
  yields an empty history and an empty index. After \<open>N\<close> calls of \<^verbatim>\<open>chat\<close> that all
  return, the history holds exactly \<open>2N\<close> messages, alternately a \<^verbatim>\<open>HumanMessage\<close>
  and an \<^verbatim>\<open>AIMessage\<close>, and the index holds exactly \<open>N\<close> documents.
\<close>

theorem chat_loop_index_history_parity:
  assumes "fs path = None"
    and "init loads fs path populated [] = Inr s0"
    and "chat_loop dumps turns s0 = (Inr (), s)"
  shows "length (conversation_history s) = 2 * length turns
         \<and> length (vectorstore s) = length turns
         \<and> map role (conversation_history s) =
             concat (replicate (length turns) [''HumanMessage'', ''AIMessage''])"
proof -
  from assms(1,2) have "conversation_history s0 = []" and "vectorstore s0 = []"
    by (auto simp: init_def load_pickle_def initialize_vectorstore_def)
  with chat_loop_counts [OF assms(3)] show ?thesis by simp
qed

text \<open>Two turns on a fresh bot: four messages, two documents.\<close>

theorem chat_loop_index_history_parity_witness:
  "Map.empty memory_path = None
   \<and> init sample_loads Map.empty memory_path False [] = Inr fresh_bot
   \<and> chat_loop sample_dumps two_turns fresh_bot =
       (Inr (),
        \<lparr>disk = [memory_path \<mapsto>
                   sample_dumps [hi_message, hello_message, more_message, sure_message]],
         pickle_path = memory_path,
         conversation_history = [hi_message, hello_message, more_message, sure_message],
         vectorstore = [hi_hello_document, more_sure_document]\<rparr>)
   \<and> length [hi_message, hello_message, more_message, sure_message] = 2 * length two_turns
   \<and> length [hi_hello_document, more_sure_document] = length two_turns"
proof -
  have nofile: "(Map.empty :: files) memory_path = None" by simp
  have start: "init sample_loads Map.empty memory_path False [] = Inr fresh_bot"
    by (simp add: init_def load_pickle_def initialize_vectorstore_def fresh_bot_def)
  have run: "chat_loop sample_dumps two_turns fresh_bot =
       (Inr (),
        \<lparr>disk = [memory_path \<mapsto>
                   sample_dumps [hi_message, hello_message, more_message, sure_message]],
         pickle_path = memory_path,
         conversation_history = [hi_message, hello_message, more_message, sure_message],
         vectorstore = [hi_hello_document, more_sure_document]\<rparr>)"
    by (simp add: two_turns_def chat_def save_pickle_def succeeds_def fresh_bot_def
        hi_message_def hello_message_def more_message_def sure_message_def
        hi_hello_document_def more_sure_document_def combined_text_def)
  from chat_loop_index_history_parity [OF nofile start run] start run
  show ?thesis by simp
qed

section \<open>Document ingestion\<close>

text \<open>
  Claim C8. For every path that ends in none of \<^verbatim>\<open>.txt\<close>, \<^verbatim>\<open>.pdf\<close> and
  \<^verbatim>\<open>.docx\<close>, the loader selection prints the warning and picks the plain-text loader
  for the path. The ingestion command then goes on with that loader and ends normally:
  it prints either the number of chunks it added or the error of a later step, so the
  extension alone never ends the command.
\<close>

theorem unrecognized_extension_falls_back:
  assumes "\<not> endswith doc_path ''.txt''"
    and "\<not> endswith doc_path ''.pdf''"
    and "\<not> endswith doc_path ''.docx''"
  shows "select_loader doc_path =
           ([Line ''Unsupported file type. Attempting TextLoader...''], TextLoader doc_path)
         \<and> add_a_document load split add_raises doc_path s =
             (case load (TextLoader doc_path) of
                Inl e \<Rightarrow>
                  ([Line ''Unsupported file type. Attempting TextLoader...'', Error_loading e], s)
              | Inr documents \<Rightarrow>
                  if add_raises
                  then ([Line ''Unsupported file type. Attempting TextLoader...'',
                         Error_loading IndexAddError], s)
                  else ([Line ''Unsupported file type. Attempting TextLoader...'',
                         Added_chunks (length (split documents))],
                        s\<lparr>vectorstore := vectorstore s @ split documents\<rparr>))"
  using assms
  by (simp add: select_loader_def add_a_document_def Let_def split: sum.splits)

text \<open>A Markdown file is read by the plain-text loader.\<close>

theorem unrecognized_extension_falls_back_witness:
  "\<not> endswith ''notes.md'' ''.txt''
   \<and> \<not> endswith ''notes.md'' ''.pdf''
   \<and> \<not> endswith ''notes.md'' ''.docx''
   \<and> select_loader ''notes.md'' =
        ([Line ''Unsupported file type. Attempting TextLoader...''], TextLoader ''notes.md'')
   \<and> add_a_document sample_load id False ''notes.md'' fresh_bot =
        ([Line ''Unsupported file type. Attempting TextLoader...'', Added_chunks 1],
         fresh_bot\<lparr>vectorstore := [\<lparr>page_content = ''plain text''\<rparr>]\<rparr>)"
proof -
  have not_txt: "\<not> endswith ''notes.md'' ''.txt''" by (simp add: endswith_def)
  have not_pdf: "\<not> endswith ''notes.md'' ''.pdf''" by (simp add: endswith_def)
  have not_docx: "\<not> endswith ''notes.md'' ''.docx''" by (simp add: endswith_def)
  from unrecognized_extension_falls_back
    [OF not_txt not_pdf not_docx, of sample_load id False fresh_bot]
    not_txt not_pdf not_docx
  show ?thesis by (simp add: sample_load_def fresh_bot_def)
qed

end
